theory Spec2Isabelle
  imports Main "HOL-Library.Word"
begin

unbundle bit_operations_syntax

section \<open>Bytes, exceptions and stateful actions\<close>

text \<open>
  The decoders of \<^verbatim>\<open>pymysqlreplication/protocol.py\<close> and
  \<^verbatim>\<open>pymysqlreplication/packet.py\<close> are methods of mutable Python objects that raise
  exceptions. A method is embedded as a function from the object's state to a result and the
  state it leaves behind; a raised exception is \<open>Inl\<close>. The state is returned in both cases,
  because a Python object keeps the mutations made before an exception was raised, and
  \<^verbatim>\<open>read_binary_json_object\<close> goes on reading after it has caught one.
\<close>

type_synonym byte = "8 word"

datatype error =
    StructError
  | ValueError string
  | IndexError
  | AttributeError string
  | TypeError
  | InvalidOperation
  | TruncatedDataError

type_synonym ('s, 'a) action = "'s \<Rightarrow> (error + 'a) \<times> 's"

definition returnE :: "'a \<Rightarrow> ('s, 'a) action" where
  "returnE x s = (Inr x, s)"

definition raiseE :: "error \<Rightarrow> ('s, 'a) action" where
  "raiseE e s = (Inl e, s)"

definition bindE :: "('s, 'a) action \<Rightarrow> ('a \<Rightarrow> ('s, 'b) action) \<Rightarrow> ('s, 'b) action" where
  "bindE m f s = (case m s of (Inl e, s') \<Rightarrow> (Inl e, s') | (Inr x, s') \<Rightarrow> f x s')"

definition liftE :: "error + 'a \<Rightarrow> ('s, 'a) action" where
  "liftE r s = (r, s)"

text \<open>A list comprehension \<^verbatim>\<open>[m() for _ in range(n)]\<close> whose body has effects.\<close>

fun repeatE :: "nat \<Rightarrow> ('s, 'a) action \<Rightarrow> ('s, 'a list) action" where
  "repeatE 0 m s = (Inr [], s)"
| "repeatE (Suc n) m s =
     (case m s of
        (Inl e, s1) \<Rightarrow> (Inl e, s1)
      | (Inr x, s1) \<Rightarrow>
          (case repeatE n m s1 of
             (Inl e, s2) \<Rightarrow> (Inl e, s2)
           | (Inr xs, s2) \<Rightarrow> (Inr (x # xs), s2)))"

text \<open>A list comprehension \<^verbatim>\<open>[f(x) for x in xs]\<close> whose body has effects.\<close>

fun mapE :: "('a \<Rightarrow> ('s, 'b) action) \<Rightarrow> 'a list \<Rightarrow> ('s, 'b list) action" where
  "mapE f [] s = (Inr [], s)"
| "mapE f (x # xs) s =
     (case f x s of
        (Inl e, s1) \<Rightarrow> (Inl e, s1)
      | (Inr y, s1) \<Rightarrow>
          (case mapE f xs s1 of
             (Inl e, s2) \<Rightarrow> (Inl e, s2)
           | (Inr ys, s2) \<Rightarrow> (Inr (y # ys), s2)))"

section \<open>The packet wrapper (packet.py)\<close>

subsection \<open>The wrapped packet\<close>

text \<open>
  Modelled from the spec: the object \<^verbatim>\<open>from_packet\<close> that \<^verbatim>\<open>BinLogPacketWrapper\<close>
  wraps comes from the connection library and is not in src/. It is the "underlying source"
  of spec section 4.1: a byte sequence with a position, whose \<^verbatim>\<open>read(n)\<close> returns exactly
  \<open>n\<close> bytes and moves the position, or fails with \<open>TruncatedDataError\<close> when fewer than
  \<open>n\<close> bytes are left, and whose \<^verbatim>\<open>advance(n)\<close> skips \<open>n\<close> bytes under the same
  condition.
\<close>

record mysql_packet =
  pdata :: "byte list"
  position :: nat

definition packet_read :: "nat \<Rightarrow> (mysql_packet, byte list) action" where
  "packet_read sz p =
     (let result = take sz (drop (position p) (pdata p))
      in if length result \<noteq> sz then (Inl TruncatedDataError, p)
         else (Inr result, p\<lparr>position := position p + sz\<rparr>))"

definition packet_advance :: "nat \<Rightarrow> (mysql_packet, unit) action" where
  "packet_advance sz p =
     (if position p + sz > length (pdata p) then (Inl TruncatedDataError, p)
      else (Inr (), p\<lparr>position := position p + sz\<rparr>))"

subsection \<open>struct.unpack\<close>

text \<open>
  \<^verbatim>\<open>struct.unpack\<close> with an explicit byte order raises \<^verbatim>\<open>struct.error\<close> unless the
  buffer has exactly the size of the format. Unsigned fields are Python integers, which do
  not overflow; signed fields are read through a machine word of the field's width.
\<close>

fun le_uint :: "byte list \<Rightarrow> nat" where
  "le_uint [] = 0"
| "le_uint (b # bs) = unat b + 256 * le_uint bs"

definition be_uint :: "byte list \<Rightarrow> nat" where
  "be_uint bs = le_uint (rev bs)"

definition unpack_uint_le :: "nat \<Rightarrow> byte list \<Rightarrow> error + nat" where
  "unpack_uint_le n bs = (if length bs \<noteq> n then Inl StructError else Inr (le_uint bs))"

definition unpack_uint_be :: "nat \<Rightarrow> byte list \<Rightarrow> error + nat" where
  "unpack_uint_be n bs = (if length bs \<noteq> n then Inl StructError else Inr (be_uint bs))"

fun split_fields :: "nat list \<Rightarrow> byte list \<Rightarrow> byte list list" where
  "split_fields [] bs = []"
| "split_fields (w # ws) bs = take w bs # split_fields ws (drop w bs)"

text \<open>
  \<^verbatim>\<open>byte2int\<close> of the connection library: \<^verbatim>\<open>struct.unpack("!B", b)[0]\<close> on a bytes
  object.
\<close>

definition byte2int :: "byte list \<Rightarrow> error + nat" where
  "byte2int b = unpack_uint_be 1 b"

subsection \<open>BinLogPacketWrapper\<close>

record wrapper =
  read_bytes :: int
  data_buffer :: "byte list"
  packet :: mysql_packet
  timestamp :: nat
  event_type :: nat
  server_id :: nat
  event_size :: nat
  log_pos :: nat
  flags :: nat

text \<open>\<^verbatim>\<open>struct.unpack('<cIcIIIH', ...)\<close>: seven fields of 1, 4, 1, 4, 4, 4 and 2 bytes.\<close>

definition unpack_cIcIIIH ::
  "byte list \<Rightarrow> error + (byte list \<times> nat \<times> byte list \<times> nat \<times> nat \<times> nat \<times> nat)" where
  "unpack_cIcIIIH bs =
     (if length bs \<noteq> 20 then Inl StructError
      else (case split_fields [1, 4, 1, 4, 4, 4, 2] bs of
              [ok, ts, et, sid, es, lp, fl] \<Rightarrow>
                Inr (ok, le_uint ts, et, le_uint sid, le_uint es, le_uint lp, le_uint fl)
            | _ \<Rightarrow> Inl StructError))"

text \<open>
  \<^verbatim>\<open>BinLogPacketWrapper.__init__\<close> up to the computation of
  \<^verbatim>\<open>event_size_without_header\<close> (lines 62 to 91). The header is read with
  \<^verbatim>\<open>self.packet.read(20)\<close>, the wrapped packet's own read. The result is the wrapper
  and \<^verbatim>\<open>event_size_without_header\<close>, which \<^verbatim>\<open>__init__\<close> hands to the event class
  (the event classes are outside src/).
\<close>

definition BinLogPacketWrapper_init :: "mysql_packet \<Rightarrow> bool \<Rightarrow> error + (wrapper \<times> int)" where
  "BinLogPacketWrapper_init from_packet use_checksum =
     (case packet_read 20 from_packet of
        (Inl e, p) \<Rightarrow> Inl e
      | (Inr hdr, p) \<Rightarrow>
          (case unpack_cIcIIIH hdr of
             Inl e \<Rightarrow> Inl e
           | Inr (ok, ts, et, sid, es, lp, fl) \<Rightarrow>
               (case byte2int et of
                  Inl e \<Rightarrow> Inl e
                | Inr ety \<Rightarrow>
                    (let self = \<lparr>read_bytes = 0, data_buffer = [], packet = p,
                                 timestamp = ts, event_type = ety, server_id = sid,
                                 event_size = es, log_pos = lp, flags = fl\<rparr>;
                         event_size_without_header =
                           (if use_checksum then int (event_size self) - 23
                            else int (event_size self) - 19)
                     in Inr (self, event_size_without_header)))))"

definition BinLogPacketWrapper_read :: "nat \<Rightarrow> (wrapper, byte list) action" where
  "BinLogPacketWrapper_read sz self =
     (let s1 = self\<lparr>read_bytes := read_bytes self + int sz\<rparr>
      in if length (data_buffer s1) > 0 then
           (let data = take sz (data_buffer s1);
                s2 = s1\<lparr>data_buffer := drop sz (data_buffer s1)\<rparr>
            in if length data = sz then (Inr data, s2)
               else (case packet_read (sz - length data) (packet s2) of
                       (Inl e, p) \<Rightarrow> (Inl e, s2\<lparr>packet := p\<rparr>)
                     | (Inr rest, p) \<Rightarrow> (Inr (data @ rest), s2\<lparr>packet := p\<rparr>)))
         else (case packet_read sz (packet s1) of
                 (Inl e, p) \<Rightarrow> (Inl e, s1\<lparr>packet := p\<rparr>)
               | (Inr data, p) \<Rightarrow> (Inr data, s1\<lparr>packet := p\<rparr>)))"

definition BinLogPacketWrapper_unread :: "byte list \<Rightarrow> (wrapper, unit) action" where
  "BinLogPacketWrapper_unread data self =
     (Inr (), self\<lparr>read_bytes := read_bytes self - int (length data),
                   data_buffer := data_buffer self @ data\<rparr>)"

definition BinLogPacketWrapper_advance :: "nat \<Rightarrow> (wrapper, unit) action" where
  "BinLogPacketWrapper_advance sz self =
     (let s1 = self\<lparr>read_bytes := read_bytes self + int sz\<rparr>;
          buffer_len = length (data_buffer s1)
      in if buffer_len > 0 then
           (let s2 = s1\<lparr>data_buffer := drop sz (data_buffer s1)\<rparr>
            in if sz > buffer_len then
                 (case packet_advance (sz - buffer_len) (packet s2) of
                    (r, p) \<Rightarrow> (r, s2\<lparr>packet := p\<rparr>))
               else (Inr (), s2))
         else (case packet_advance sz (packet s1) of
                 (r, p) \<Rightarrow> (r, s1\<lparr>packet := p\<rparr>)))"

section \<open>The primitive decoders (protocol.py, StructMysql)\<close>

text \<open>
  The methods of \<^verbatim>\<open>StructMysql\<close> read through \<^verbatim>\<open>self.read\<close>, which each subclass
  defines. They are embedded with the subclass's \<^verbatim>\<open>read\<close> as the parameter \<open>rd\<close>.
\<close>

definition bindS :: "error + 'a \<Rightarrow> ('a \<Rightarrow> error + 'b) \<Rightarrow> error + 'b" where
  "bindS r f = (case r of Inl e \<Rightarrow> Inl e | Inr x \<Rightarrow> f x)"

text \<open>Indexing a bytes object: \<^verbatim>\<open>n[i]\<close> raises \<^verbatim>\<open>IndexError\<close> out of range.\<close>

definition byte_at :: "byte list \<Rightarrow> nat \<Rightarrow> error + nat" where
  "byte_at n i = (if i < length n then Inr (unat (n ! i)) else Inl IndexError)"

text \<open>Signed \<^verbatim>\<open>struct\<close> formats: \<^verbatim>\<open>b\<close> (1 byte), \<^verbatim>\<open>h\<close> (2), \<^verbatim>\<open>i\<close> and
  \<^verbatim>\<open>l\<close> (4 in standard size mode), \<^verbatim>\<open>q\<close> (8).\<close>

definition unpack_b :: "byte list \<Rightarrow> error + int" where
  "unpack_b bs =
     (if length bs \<noteq> 1 then Inl StructError else Inr (sint (word_of_nat (be_uint bs) :: 8 word)))"

definition unpack_h_be :: "byte list \<Rightarrow> error + int" where
  "unpack_h_be bs =
     (if length bs \<noteq> 2 then Inl StructError else Inr (sint (word_of_nat (be_uint bs) :: 16 word)))"

definition unpack_i_be :: "byte list \<Rightarrow> error + int" where
  "unpack_i_be bs =
     (if length bs \<noteq> 4 then Inl StructError else Inr (sint (word_of_nat (be_uint bs) :: 32 word)))"

definition unpack_l_be :: "byte list \<Rightarrow> error + int" where
  "unpack_l_be bs =
     (if length bs \<noteq> 4 then Inl StructError else Inr (sint (word_of_nat (be_uint bs) :: 32 word)))"

definition unpack_h_le :: "byte list \<Rightarrow> error + int" where
  "unpack_h_le bs =
     (if length bs \<noteq> 2 then Inl StructError else Inr (sint (word_of_nat (le_uint bs) :: 16 word)))"

definition unpack_i_le :: "byte list \<Rightarrow> error + int" where
  "unpack_i_le bs =
     (if length bs \<noteq> 4 then Inl StructError else Inr (sint (word_of_nat (le_uint bs) :: 32 word)))"

definition unpack_q_le :: "byte list \<Rightarrow> error + int" where
  "unpack_q_le bs =
     (if length bs \<noteq> 8 then Inl StructError else Inr (sint (word_of_nat (le_uint bs) :: 64 word)))"

subsection \<open>Length-coded binary\<close>

text \<open>
  Modelled from the spec: the module \<^verbatim>\<open>constants\<close> is not in src/. Spec section 4.2
  gives the prefix bytes of a length-coded integer (the NULL sentinel 0xFB, below which a
  prefix is its own value, then 0xFC, 0xFD and 0xFE) and the widths 2, 3 and 8 that follow.
\<close>

definition NULL_COLUMN :: nat where "NULL_COLUMN = 251"
definition UNSIGNED_CHAR_COLUMN :: nat where "UNSIGNED_CHAR_COLUMN = 251"
definition UNSIGNED_SHORT_COLUMN :: nat where "UNSIGNED_SHORT_COLUMN = 252"
definition UNSIGNED_INT24_COLUMN :: nat where "UNSIGNED_INT24_COLUMN = 253"
definition UNSIGNED_INT64_COLUMN :: nat where "UNSIGNED_INT64_COLUMN = 254"
definition UNSIGNED_SHORT_LENGTH :: nat where "UNSIGNED_SHORT_LENGTH = 2"
definition UNSIGNED_INT24_LENGTH :: nat where "UNSIGNED_INT24_LENGTH = 3"
definition UNSIGNED_INT64_LENGTH :: nat where "UNSIGNED_INT64_LENGTH = 8"

definition unpack_uint16 :: "byte list \<Rightarrow> error + nat" where
  "unpack_uint16 n = unpack_uint_le 2 (take 2 n)"

text \<open>
  \<^verbatim>\<open>unpack_int24\<close> and \<^verbatim>\<open>unpack_int64\<close>: indexing a bytes object gives an integer,
  \<^verbatim>\<open>struct.unpack('B', n[0])\<close> raises \<^verbatim>\<open>TypeError\<close> on it, and the \<^verbatim>\<open>except\<close>
  branch computes the sum from the indexed bytes. \<^verbatim>\<open>unpack_int64\<close> adds five bytes.
\<close>

definition unpack_int24 :: "byte list \<Rightarrow> error + nat" where
  "unpack_int24 n =
     bindS (byte_at n 0) (\<lambda>n0. bindS (byte_at n 1) (\<lambda>n1. bindS (byte_at n 2) (\<lambda>n2.
       Inr (n0 + push_bit 8 n1 + push_bit 16 n2))))"

definition unpack_int64 :: "byte list \<Rightarrow> error + nat" where
  "unpack_int64 n =
     bindS (byte_at n 0) (\<lambda>n0. bindS (byte_at n 1) (\<lambda>n1. bindS (byte_at n 2) (\<lambda>n2.
     bindS (byte_at n 3) (\<lambda>n3. bindS (byte_at n 4) (\<lambda>n4.
       Inr (n0 + push_bit 8 n1 + push_bit 16 n2 + push_bit 24 n3 + push_bit 32 n4))))))"

text \<open>The result is \<open>None\<close> where the method returns Python's \<^verbatim>\<open>None\<close>, which it also
  does by falling off the end of the chain (prefix 0xFF).\<close>

definition read_length_coded_binary ::
  "(nat \<Rightarrow> ('s, byte list) action) \<Rightarrow> ('s, nat option) action" where
  "read_length_coded_binary rd =
     bindE (rd 1) (\<lambda>b. bindE (liftE (byte2int b)) (\<lambda>c.
       if c = NULL_COLUMN then returnE None
       else if c < UNSIGNED_CHAR_COLUMN then returnE (Some c)
       else if c = UNSIGNED_SHORT_COLUMN then
         bindE (rd UNSIGNED_SHORT_LENGTH) (\<lambda>n. bindE (liftE (unpack_uint16 n)) (\<lambda>v.
           returnE (Some v)))
       else if c = UNSIGNED_INT24_COLUMN then
         bindE (rd UNSIGNED_INT24_LENGTH) (\<lambda>n. bindE (liftE (unpack_int24 n)) (\<lambda>v.
           returnE (Some v)))
       else if c = UNSIGNED_INT64_COLUMN then
         bindE (rd UNSIGNED_INT64_LENGTH) (\<lambda>n. bindE (liftE (unpack_int64 n)) (\<lambda>v.
           returnE (Some v)))
       else returnE None))"

subsection \<open>Fixed-width integers\<close>

definition read_int24_be :: "(nat \<Rightarrow> ('s, byte list) action) \<Rightarrow> ('s, int) action" where
  "read_int24_be rd =
     bindE (rd 3) (\<lambda>bs.
       (case bs of
          [a, b, c] \<Rightarrow>
            (let res = push_bit 16 (uint a) OR push_bit 8 (uint b) OR uint c
             in returnE (if res \<ge> 0x800000 then res - 0x1000000 else res))
        | _ \<Rightarrow> raiseE StructError))"

definition read_int40_be :: "(nat \<Rightarrow> ('s, byte list) action) \<Rightarrow> ('s, int) action" where
  "read_int40_be rd =
     bindE (rd 5) (\<lambda>bs.
       if length bs \<noteq> 5 then raiseE StructError
       else (let a = int (be_uint (take 4 bs)); b = int (be_uint (drop 4 bs))
             in returnE (b + push_bit 8 a)))"

definition read_int_be_by_size ::
  "(nat \<Rightarrow> ('s, byte list) action) \<Rightarrow> nat \<Rightarrow> ('s, int option) action" where
  "read_int_be_by_size rd sz =
     (if sz = 1 then bindE (rd sz) (\<lambda>bs. bindE (liftE (unpack_b bs)) (\<lambda>v. returnE (Some v)))
      else if sz = 2 then
        bindE (rd sz) (\<lambda>bs. bindE (liftE (unpack_h_be bs)) (\<lambda>v. returnE (Some v)))
      else if sz = 3 then bindE (read_int24_be rd) (\<lambda>v. returnE (Some v))
      else if sz = 4 then
        bindE (rd sz) (\<lambda>bs. bindE (liftE (unpack_i_be bs)) (\<lambda>v. returnE (Some v)))
      else if sz = 5 then bindE (read_int40_be rd) (\<lambda>v. returnE (Some v))
      else if sz = 8 then
        bindE (rd sz) (\<lambda>bs. bindE (liftE (unpack_l_be bs)) (\<lambda>v. returnE (Some v)))
      else returnE None)"

definition read_uint8 :: "(nat \<Rightarrow> ('s, byte list) action) \<Rightarrow> ('s, nat) action" where
  "read_uint8 rd = bindE (rd 1) (\<lambda>bs. liftE (unpack_uint_le 1 bs))"

definition read_int16 :: "(nat \<Rightarrow> ('s, byte list) action) \<Rightarrow> ('s, int) action" where
  "read_int16 rd = bindE (rd 2) (\<lambda>bs. liftE (unpack_h_le bs))"

definition read_uint16 :: "(nat \<Rightarrow> ('s, byte list) action) \<Rightarrow> ('s, nat) action" where
  "read_uint16 rd = bindE (rd 2) (\<lambda>bs. liftE (unpack_uint_le 2 bs))"

definition read_uint32 :: "(nat \<Rightarrow> ('s, byte list) action) \<Rightarrow> ('s, nat) action" where
  "read_uint32 rd = bindE (rd 4) (\<lambda>bs. liftE (unpack_uint_le 4 bs))"

definition read_int32 :: "(nat \<Rightarrow> ('s, byte list) action) \<Rightarrow> ('s, int) action" where
  "read_int32 rd = bindE (rd 4) (\<lambda>bs. liftE (unpack_i_le bs))"

definition read_uint64 :: "(nat \<Rightarrow> ('s, byte list) action) \<Rightarrow> ('s, nat) action" where
  "read_uint64 rd = bindE (rd 8) (\<lambda>bs. liftE (unpack_uint_le 8 bs))"

definition read_int64 :: "(nat \<Rightarrow> ('s, byte list) action) \<Rightarrow> ('s, int) action" where
  "read_int64 rd = bindE (rd 8) (\<lambda>bs. liftE (unpack_q_le bs))"

section \<open>The in-memory payload cursor (protocol.py, WrapperPayload)\<close>

text \<open>
  \<^verbatim>\<open>WrapperPayload.read\<close> moves \<^verbatim>\<open>point\<close> and returns the slice
  \<^verbatim>\<open>payload[point-size:point]\<close>; a Python slice that runs past the end is cut short and
  does not raise. The decoders call it with sizes that are lengths and counts, so sizes and
  \<^verbatim>\<open>point\<close> are natural numbers (\<^verbatim>\<open>rewind\<close>, the one method that moves
  \<^verbatim>\<open>point\<close> back, has no caller in src/ and is left out).
\<close>

record payload_state =
  payload :: "byte list"
  point :: nat

definition WrapperPayload_read :: "nat \<Rightarrow> (payload_state, byte list) action" where
  "WrapperPayload_read sz self =
     (Inr (take sz (drop (point self) (payload self))), self\<lparr>point := point self + sz\<rparr>)"

definition WrapperPayload_advance :: "nat \<Rightarrow> (payload_state, unit) action" where
  "WrapperPayload_advance sz self = (Inr (), self\<lparr>point := point self + sz\<rparr>)"

text \<open>
  Neither \<^verbatim>\<open>WrapperJson\<close> nor its base classes \<^verbatim>\<open>WrapperPayload\<close> and
  \<^verbatim>\<open>StructMysql\<close> define \<^verbatim>\<open>unread\<close>, and none defines \<^verbatim>\<open>__getattr__\<close>: the
  attribute lookup \<^verbatim>\<open>self.unread\<close> on a \<^verbatim>\<open>WrapperJson\<close> raises
  \<^verbatim>\<open>AttributeError\<close>.
\<close>

definition WrapperJson_unread :: "byte list \<Rightarrow> (payload_state, unit) action" where
  "WrapperJson_unread data = raiseE (AttributeError ''unread'')"

section \<open>The packed decimal decoder (protocol.py, read_new_decimal)\<close>

subsection \<open>Formatting integers and parsing the decimal text\<close>

definition digit_char :: "nat \<Rightarrow> char" where
  "digit_char d = ''0123456789'' ! d"

fun digits_of_nat :: "nat \<Rightarrow> string" where
  "digits_of_nat n =
     (if n < 10 then [digit_char n] else digits_of_nat (n div 10) @ [digit_char (n mod 10)])"

text \<open>\<^verbatim>\<open>str(value)\<close> of an integer.\<close>

definition str_int :: "int \<Rightarrow> string" where
  "str_int v = (if v < 0 then CHR ''-'' # digits_of_nat (nat (- v)) else digits_of_nat (nat v))"

text \<open>\<^verbatim>\<open>'%0*d' % (width, value)\<close>: zero padding to \<open>width\<close> characters, the sign
  included; \<^verbatim>\<open>'%09d'\<close> is the width 9.\<close>

definition format_0d :: "nat \<Rightarrow> int \<Rightarrow> string" where
  "format_0d width v =
     (let ds = digits_of_nat (nat \<bar>v\<bar>)
      in if v < 0 then CHR ''-'' # replicate (width - 1 - length ds) CHR ''0'' @ ds
         else replicate (width - length ds) CHR ''0'' @ ds)"

text \<open>
  A \<^verbatim>\<open>decimal.Decimal\<close> is a sign, a coefficient and an exponent (its
  \<^verbatim>\<open>as_tuple()\<close>); the value is the coefficient times ten to the exponent, negated when
  the sign is set. \<^verbatim>\<open>Decimal(res)\<close> is applied to a text made of digits, minus signs and
  one decimal point only; on such a text it accepts an optional leading minus sign, digits,
  the point and digits, with at least one digit, and raises
  \<^verbatim>\<open>decimal.InvalidOperation\<close> on anything else.
\<close>

datatype decimal = Decimal (negative: bool) (coefficient: nat) (exponent: int)

definition is_digit :: "char \<Rightarrow> bool" where
  "is_digit c = (c \<in> set ''0123456789'')"

definition digit_value :: "char \<Rightarrow> nat" where
  "digit_value c = of_char c - 48"

definition nat_of_digits :: "string \<Rightarrow> nat" where
  "nat_of_digits ds = foldl (\<lambda>acc c. 10 * acc + digit_value c) 0 ds"

definition Decimal_of_string :: "string \<Rightarrow> error + decimal" where
  "Decimal_of_string res =
     (let neg = (case res of [] \<Rightarrow> False | c # cs \<Rightarrow> c = CHR ''-'');
          body = (if neg then tl res else res);
          intpart = takeWhile (\<lambda>c. c \<noteq> CHR ''.'') body;
          rest = dropWhile (\<lambda>c. c \<noteq> CHR ''.'') body;
          fracpart = tl rest
      in if list_all is_digit intpart \<and> list_all is_digit fracpart
            \<and> (intpart \<noteq> [] \<or> fracpart \<noteq> [])
         then Inr (Decimal neg (nat_of_digits (intpart @ fracpart)) (- int (length fracpart)))
         else Inl InvalidOperation)"

subsection \<open>The decoder\<close>

text \<open>
  \<^verbatim>\<open>int(integral / digits_per_integer)\<close> is a true division followed by truncation
  towards zero (Python 3); the operands are below 256, so the quotient is exact.
\<close>

definition int_trunc_div :: "int \<Rightarrow> int \<Rightarrow> int" where
  "int_trunc_div a b =
     (if (a < 0) = (b < 0) then \<bar>a\<bar> div \<bar>b\<bar> else - (\<bar>a\<bar> div \<bar>b\<bar>))"

text \<open>Indexing a list with a Python integer: a negative index counts from the end.\<close>

definition list_at :: "'a list \<Rightarrow> int \<Rightarrow> error + 'a" where
  "list_at xs i =
     (if 0 \<le> i \<and> i < int (length xs) then Inr (xs ! nat i)
      else if i < 0 \<and> - int (length xs) \<le> i then Inr (xs ! nat (int (length xs) + i))
      else Inl IndexError)"

definition compressed_bytes :: "nat list" where
  "compressed_bytes = [0, 1, 1, 2, 2, 3, 3, 4, 4, 4]"

text \<open>The two \<^verbatim>\<open>for i in range(0, n)\<close> loops over the full groups of nine digits.\<close>

fun read_groups ::
  "(nat \<Rightarrow> ('s, byte list) action) \<Rightarrow> int \<Rightarrow> nat \<Rightarrow> string \<Rightarrow> ('s, string) action" where
  "read_groups rd xmask 0 res = returnE res"
| "read_groups rd xmask (Suc n) res =
     bindE (rd 4) (\<lambda>bs. bindE (liftE (unpack_i_be bs)) (\<lambda>v.
       read_groups rd xmask n (res @ format_0d 9 (v XOR xmask))))"

text \<open>
  The compressed group at either end (\<open>xmask\<close> is the source's \<^verbatim>\<open>mask\<close>): \<^verbatim>\<open>read_int_be_by_size(size) ^ mask\<close>, where
  \<^verbatim>\<open>None ^ mask\<close> raises \<^verbatim>\<open>TypeError\<close>.
\<close>

definition read_compressed ::
  "(nat \<Rightarrow> ('s, byte list) action) \<Rightarrow> int \<Rightarrow> nat \<Rightarrow> ('s, int) action" where
  "read_compressed rd xmask sz =
     bindE (read_int_be_by_size rd sz) (\<lambda>r.
       (case r of None \<Rightarrow> raiseE TypeError | Some v \<Rightarrow> returnE (v XOR xmask)))"

definition read_new_decimal ::
  "(nat \<Rightarrow> ('s, byte list) action) \<Rightarrow> (byte list \<Rightarrow> ('s, unit) action) \<Rightarrow> ('s, decimal) action"
  where
  "read_new_decimal rd unread =
     bindE (read_uint8 rd) (\<lambda>precision. bindE (read_uint8 rd) (\<lambda>decimals.
       (let digits_per_integer = 9;
            integral = int precision - int decimals;
            uncomp_integral = int_trunc_div integral digits_per_integer;
            uncomp_fractional = int_trunc_div (int decimals) digits_per_integer;
            comp_integral = integral - uncomp_integral * digits_per_integer;
            comp_fractional = int decimals - uncomp_fractional * digits_per_integer
        in bindE (read_uint8 rd) (\<lambda>v0.
             (let res0 = (if v0 AND 0x80 \<noteq> 0 then [] else ''-'');
                  xmask = (if v0 AND 0x80 \<noteq> 0 then 0 else - 1)
              in bindE (unread [word_of_nat (v0 XOR 0x80)]) (\<lambda>_.
                 bindE (liftE (list_at compressed_bytes comp_integral)) (\<lambda>sz.
                 bindE (if sz > 0
                        then bindE (read_compressed rd xmask sz) (\<lambda>v. returnE (res0 @ str_int v))
                        else returnE res0) (\<lambda>res1.
                 bindE (read_groups rd xmask (nat uncomp_integral) res1) (\<lambda>res2.
                 bindE (read_groups rd xmask (nat uncomp_fractional) (res2 @ ''.'')) (\<lambda>res3.
                 bindE (liftE (list_at compressed_bytes comp_fractional)) (\<lambda>sz2.
                 bindE (if sz2 > 0
                        then bindE (read_compressed rd xmask sz2) (\<lambda>v.
                               returnE (res3 @ format_0d (nat comp_fractional) v))
                        else returnE res3) (\<lambda>res4.
                 liftE (Decimal_of_string res4)))))))))))))"

text \<open>\<^verbatim>\<open>read_new_decimal\<close> is a method of \<^verbatim>\<open>WrapperJson\<close>.\<close>

definition WrapperJson_read_new_decimal :: "(payload_state, decimal) action" where
  "WrapperJson_read_new_decimal = read_new_decimal WrapperPayload_read WrapperJson_unread"

section \<open>The binary JSON decoder (protocol.py, WrapperJson)\<close>

text \<open>
  Modelled from the spec: the type tags \<^verbatim>\<open>JSONB_TYPE_*\<close> and the literal codes
  \<^verbatim>\<open>JSONB_LITERAL_*\<close> come from the module \<^verbatim>\<open>constants\<close>, which is not in src/.
  Spec section 4.4 names the tags (small and large object, small and large array, literal,
  signed and unsigned integers of 16, 32 and 64 bits, double, string, opaque) and the three
  literals; the numbers are those of MySQL's binary JSON format.
\<close>

definition JSONB_TYPE_SMALL_OBJECT :: nat where "JSONB_TYPE_SMALL_OBJECT = 0"
definition JSONB_TYPE_LARGE_OBJECT :: nat where "JSONB_TYPE_LARGE_OBJECT = 1"
definition JSONB_TYPE_SMALL_ARRAY :: nat where "JSONB_TYPE_SMALL_ARRAY = 2"
definition JSONB_TYPE_LARGE_ARRAY :: nat where "JSONB_TYPE_LARGE_ARRAY = 3"
definition JSONB_TYPE_LITERAL :: nat where "JSONB_TYPE_LITERAL = 4"
definition JSONB_TYPE_INT16 :: nat where "JSONB_TYPE_INT16 = 5"
definition JSONB_TYPE_UINT16 :: nat where "JSONB_TYPE_UINT16 = 6"
definition JSONB_TYPE_INT32 :: nat where "JSONB_TYPE_INT32 = 7"
definition JSONB_TYPE_UINT32 :: nat where "JSONB_TYPE_UINT32 = 8"
definition JSONB_TYPE_INT64 :: nat where "JSONB_TYPE_INT64 = 9"
definition JSONB_TYPE_UINT64 :: nat where "JSONB_TYPE_UINT64 = 10"
definition JSONB_TYPE_DOUBLE :: nat where "JSONB_TYPE_DOUBLE = 11"
definition JSONB_TYPE_STRING :: nat where "JSONB_TYPE_STRING = 12"
definition JSONB_TYPE_OPAQUE :: nat where "JSONB_TYPE_OPAQUE = 15"
definition JSONB_LITERAL_NULL :: nat where "JSONB_LITERAL_NULL = 0"
definition JSONB_LITERAL_TRUE :: nat where "JSONB_LITERAL_TRUE = 1"
definition JSONB_LITERAL_FALSE :: nat where "JSONB_LITERAL_FALSE = 2"

text \<open>
  The decoded values. \<open>JNone\<close> is Python's \<^verbatim>\<open>None\<close>; a double is kept as the eight
  bytes of its IEEE pattern read as a little-endian number; a dictionary is the list of its
  items in insertion order.
\<close>

datatype json =
    JNone
  | JBool bool
  | JInt int
  | JDouble nat
  | JBytes "byte list"
  | JDecimal decimal
  | JDict "(byte list \<times> json) list"
  | JList "json list"

text \<open>\<^verbatim>\<open>out[key] = data\<close> on a dictionary.\<close>

fun dict_set :: "('k \<times> 'v) list \<Rightarrow> 'k \<Rightarrow> 'v \<Rightarrow> ('k \<times> 'v) list" where
  "dict_set [] k v = [(k, v)]"
| "dict_set ((k', v') # kvs) k v =
     (if k' = k then (k', v) # kvs else (k', v') # dict_set kvs k v)"

definition not_handled :: "nat \<Rightarrow> error" where
  "not_handled t = ValueError (''Json type '' @ digits_of_nat t @ '' is not handled'')"

subsection \<open>Variable-length strings\<close>

text \<open>
  The loop of \<^verbatim>\<open>read_variable_length_string\<close> on the payload cursor: each round reads
  one byte through \<^verbatim>\<open>byte2int(self.read(1))\<close>, which raises at the end of the payload.
\<close>

function read_variable_length :: "nat \<Rightarrow> nat \<Rightarrow> (payload_state, nat) action" where
  "read_variable_length len bits_read self =
     (case bindE (WrapperPayload_read 1) (\<lambda>b. liftE (byte2int b)) self of
        (Inl e, s1) \<Rightarrow> (Inl e, s1)
      | (Inr byte, s1) \<Rightarrow>
          (let len1 = len OR push_bit bits_read (byte AND 0x7f);
               bits1 = bits_read + 7
           in if byte AND 0x80 \<noteq> 0 then read_variable_length len1 bits1 s1
              else (Inr len1, s1)))"
  by pat_completeness auto
termination
  apply (relation "measure (\<lambda>(len, bits_read, self). Suc (length (payload self)) - point self)")
   apply simp
  apply (auto simp: bindE_def liftE_def WrapperPayload_read_def byte2int_def unpack_uint_be_def
      split: if_splits)
  done

definition read_variable_length_string :: "(payload_state, byte list) action" where
  "read_variable_length_string =
     bindE (read_variable_length 0 0) (\<lambda>len. WrapperPayload_read len)"

subsection \<open>Value slots\<close>

definition literal_value :: "nat \<Rightarrow> nat \<Rightarrow> (payload_state, json) action" where
  "literal_value t v =
     (if v = JSONB_LITERAL_NULL then returnE JNone
      else if v = JSONB_LITERAL_TRUE then returnE (JBool True)
      else if v = JSONB_LITERAL_FALSE then returnE (JBool False)
      else raiseE (not_handled t))"

definition read_binary_json_type_inlined :: "nat \<Rightarrow> bool \<Rightarrow> (payload_state, json) action" where
  "read_binary_json_type_inlined t large =
     (if t = JSONB_TYPE_LITERAL then
        bindE (if large then read_uint32 WrapperPayload_read else read_uint16 WrapperPayload_read)
          (\<lambda>v. literal_value t v)
      else if t = JSONB_TYPE_INT16 then
        bindE (read_int16 WrapperPayload_read) (\<lambda>v. returnE (JInt v))
      else if t = JSONB_TYPE_UINT16 then
        bindE (read_uint16 WrapperPayload_read) (\<lambda>v. returnE (JInt (int v)))
      else if t = JSONB_TYPE_INT32 then
        bindE (read_int32 WrapperPayload_read) (\<lambda>v. returnE (JInt v))
      else if t = JSONB_TYPE_UINT32 then
        bindE (read_uint32 WrapperPayload_read) (\<lambda>v. returnE (JInt (int v)))
      else if t = JSONB_TYPE_INT64 then
        bindE (read_int64 WrapperPayload_read) (\<lambda>v. returnE (JInt v))
      else if t = JSONB_TYPE_UINT64 then
        bindE (read_uint64 WrapperPayload_read) (\<lambda>v. returnE (JInt (int v)))
      else raiseE (not_handled t))"

text \<open>
  A value slot is the triple \<^verbatim>\<open>(t, offset, value)\<close>: the offset is \<^verbatim>\<open>None\<close> for an
  inlined value, and the value is \<^verbatim>\<open>None\<close> (here \<open>JNone\<close>) for a stored one.
\<close>

type_synonym slot = "nat \<times> nat option \<times> json"

definition read_offset_or_inline :: "bool \<Rightarrow> (payload_state, slot) action" where
  "read_offset_or_inline large =
     bindE (read_uint8 WrapperPayload_read) (\<lambda>t.
       if t = JSONB_TYPE_LITERAL \<or> t = JSONB_TYPE_INT16 \<or> t = JSONB_TYPE_UINT16 then
         bindE (read_binary_json_type_inlined t large) (\<lambda>v. returnE (t, None, v))
       else if large \<and> (t = JSONB_TYPE_INT32 \<or> t = JSONB_TYPE_UINT32) then
         bindE (read_binary_json_type_inlined t large) (\<lambda>v. returnE (t, None, v))
       else if large then
         bindE (read_uint32 WrapperPayload_read) (\<lambda>off. returnE (t, Some off, JNone))
       else bindE (read_uint16 WrapperPayload_read) (\<lambda>off. returnE (t, Some off, JNone)))"

subsection \<open>Containers\<close>

text \<open>
  \<^verbatim>\<open>read_binary_json_type\<close>, \<^verbatim>\<open>read_binary_json_object\<close> and
  \<^verbatim>\<open>read_binary_json_array\<close> call each other. The two container decoders take the
  decoder of a stored value, \<^verbatim>\<open>self.read_binary_json_type\<close>, as the parameter
  \<open>rec\<close>, and \<open>read_binary_json_type\<close> below is defined by recursion on a bound on the
  nesting depth; its result is \<open>None\<close> when the bound is reached.
\<close>

type_synonym json_result = "((error + json) \<times> payload_state) option"

type_synonym json_decoder = "nat \<Rightarrow> int \<Rightarrow> payload_state \<Rightarrow> json_result"

text \<open>The element count and the declared size that open both containers.\<close>

definition read_count_and_size :: "bool \<Rightarrow> (payload_state, nat \<times> nat) action" where
  "read_count_and_size large =
     (if large then
        bindE (read_uint32 WrapperPayload_read) (\<lambda>elements.
        bindE (read_uint32 WrapperPayload_read) (\<lambda>sz. returnE (elements, sz)))
      else
        bindE (read_uint16 WrapperPayload_read) (\<lambda>elements.
        bindE (read_uint16 WrapperPayload_read) (\<lambda>sz. returnE (elements, sz))))"

definition too_large :: error where
  "too_large = ValueError ''Json length is larger than packet length''"

text \<open>One entry of \<^verbatim>\<open>key_offset_lengths\<close>: the key's offset plus one, and its length.\<close>

definition read_key_offset_length :: "bool \<Rightarrow> (payload_state, nat \<times> nat) action" where
  "read_key_offset_length large =
     bindE (if large then read_uint32 WrapperPayload_read else read_uint16 WrapperPayload_read)
       (\<lambda>off. bindE (read_uint16 WrapperPayload_read) (\<lambda>klen. returnE (off + 1, klen)))"

text \<open>\<^verbatim>\<open>if key_offset_lengths[0][0] > self.point: self.point = key_offset_lengths[0][0]\<close>,
  for the offset already taken from the table.\<close>

definition fast_forward :: "nat \<Rightarrow> (payload_state, unit) action" where
  "fast_forward off self = (Inr (), if off > point self then self\<lparr>point := off\<rparr> else self)"

text \<open>
  The loop \<^verbatim>\<open>for i in range(elements)\<close> of \<^verbatim>\<open>read_binary_json_object\<close>, over the
  pairs \<^verbatim>\<open>(keys[i], value_type_inlined_lengths[i])\<close>; both lists have
  \<^verbatim>\<open>elements\<close> entries. The \<^verbatim>\<open>try\<close> around the decoding of a stored value has
  \<^verbatim>\<open>except Exception\<close>, which catches every exception of the decoder. The loop returns
  the dictionary \<^verbatim>\<open>out\<close>.
\<close>

fun object_fields ::
  "json_decoder \<Rightarrow> int \<Rightarrow> (byte list \<times> slot) list \<Rightarrow> (byte list \<times> json) list
     \<Rightarrow> payload_state \<Rightarrow> ((byte list \<times> json) list \<times> payload_state) option" where
  "object_fields rec len [] out self = Some (out, self)"
| "object_fields rec len ((key, (t, off, inl)) # rest) out self =
     (case off of
        None \<Rightarrow> object_fields rec len rest (dict_set out key inl) self
      | Some _ \<Rightarrow>
          (case rec t len self of
             None \<Rightarrow> None
           | Some (Inl e, s1) \<Rightarrow> object_fields rec len rest (dict_set out key JNone) s1
           | Some (Inr d, s1) \<Rightarrow> object_fields rec len rest (dict_set out key d) s1))"

definition read_binary_json_object ::
  "json_decoder \<Rightarrow> int \<Rightarrow> bool \<Rightarrow> payload_state \<Rightarrow> json_result" where
  "read_binary_json_object rec len large self =
     (case bindE (read_count_and_size large) (\<lambda>(elements, sz).
             if int sz > len then raiseE too_large
             else
               bindE (repeatE elements (read_key_offset_length large)) (\<lambda>key_offset_lengths.
               bindE (repeatE elements (read_offset_or_inline large))
                 (\<lambda>value_type_inlined_lengths.
               bindE (liftE (list_at key_offset_lengths 0)) (\<lambda>k0.
               bindE (fast_forward (fst k0)) (\<lambda>_.
               bindE (mapE (\<lambda>x. WrapperPayload_read (snd x)) key_offset_lengths) (\<lambda>keys.
               returnE (zip keys value_type_inlined_lengths))))))) self of
        (Inl e, s1) \<Rightarrow> Some (Inl e, s1)
      | (Inr items, s1) \<Rightarrow>
          (case object_fields rec len items [] s1 of
             None \<Rightarrow> None
           | Some (out, s2) \<Rightarrow> Some (Inr (JDict out), s2)))"

text \<open>The list comprehension \<^verbatim>\<open>[_read(x) for x in values_type_offset_inline]\<close>.\<close>

fun array_values ::
  "json_decoder \<Rightarrow> int \<Rightarrow> slot list \<Rightarrow> payload_state
     \<Rightarrow> ((error + json list) \<times> payload_state) option" where
  "array_values rec len [] self = Some (Inr [], self)"
| "array_values rec len ((t, off, inl) # rest) self =
     (case (case off of None \<Rightarrow> Some (Inr inl, self) | Some _ \<Rightarrow> rec t len self) of
        None \<Rightarrow> None
      | Some (Inl e, s1) \<Rightarrow> Some (Inl e, s1)
      | Some (Inr d, s1) \<Rightarrow>
          (case array_values rec len rest s1 of
             None \<Rightarrow> None
           | Some (Inl e, s2) \<Rightarrow> Some (Inl e, s2)
           | Some (Inr ds, s2) \<Rightarrow> Some (Inr (d # ds), s2)))"

definition read_binary_json_array ::
  "json_decoder \<Rightarrow> int \<Rightarrow> bool \<Rightarrow> payload_state \<Rightarrow> json_result" where
  "read_binary_json_array rec len large self =
     (case bindE (read_count_and_size large) (\<lambda>(elements, sz).
             if int sz > len then raiseE too_large
             else repeatE elements (read_offset_or_inline large)) self of
        (Inl e, s1) \<Rightarrow> Some (Inl e, s1)
      | (Inr values_type_offset_inline, s1) \<Rightarrow>
          (case array_values rec len values_type_offset_inline s1 of
             None \<Rightarrow> None
           | Some (Inl e, s2) \<Rightarrow> Some (Inl e, s2)
           | Some (Inr ds, s2) \<Rightarrow> Some (Inr (JList ds), s2)))"



subsection \<open>Dispatch on the type tag\<close>

definition read_opaque :: "int \<Rightarrow> (payload_state, json) action" where
  "read_opaque len =
     bindE (read_uint8 WrapperPayload_read) (\<lambda>t.
       if t = 246 then bindE WrapperJson_read_new_decimal (\<lambda>d. returnE (JDecimal d))
       else raiseE (ValueError (''Json Opaque type '' @ digits_of_nat t @ '' is not handled'')))"

primrec read_binary_json_type :: "nat \<Rightarrow> json_decoder" where
  "read_binary_json_type 0 = (\<lambda>t len self. None)"
| "read_binary_json_type (Suc depth) = (\<lambda>t len self.
     (let large = (t = JSONB_TYPE_LARGE_OBJECT \<or> t = JSONB_TYPE_LARGE_ARRAY)
      in if t = JSONB_TYPE_SMALL_OBJECT \<or> t = JSONB_TYPE_LARGE_OBJECT then
           read_binary_json_object (read_binary_json_type depth) (len - 1) large self
         else if t = JSONB_TYPE_SMALL_ARRAY \<or> t = JSONB_TYPE_LARGE_ARRAY then
           read_binary_json_array (read_binary_json_type depth) (len - 1) large self
         else if t = JSONB_TYPE_STRING then
           Some (bindE read_variable_length_string (\<lambda>v. returnE (JBytes v)) self)
         else if t = JSONB_TYPE_LITERAL then
           Some (bindE (read_uint8 WrapperPayload_read) (\<lambda>v. literal_value t v) self)
         else if t = JSONB_TYPE_INT16 then
           Some (bindE (read_int16 WrapperPayload_read) (\<lambda>v. returnE (JInt v)) self)
         else if t = JSONB_TYPE_UINT16 then
           Some (bindE (read_uint16 WrapperPayload_read) (\<lambda>v. returnE (JInt (int v))) self)
         else if t = JSONB_TYPE_DOUBLE then
           Some (bindE (read_uint64 WrapperPayload_read) (\<lambda>v. returnE (JDouble v)) self)
         else if t = JSONB_TYPE_INT32 then
           Some (bindE (read_int32 WrapperPayload_read) (\<lambda>v. returnE (JInt v)) self)
         else if t = JSONB_TYPE_UINT32 then
           Some (bindE (read_uint32 WrapperPayload_read) (\<lambda>v. returnE (JInt (int v))) self)
         else if t = JSONB_TYPE_INT64 then
           Some (bindE (read_int64 WrapperPayload_read) (\<lambda>v. returnE (JInt v)) self)
         else if t = JSONB_TYPE_UINT64 then
           Some (bindE (read_uint64 WrapperPayload_read) (\<lambda>v. returnE (JInt (int v))) self)
         else if t = JSONB_TYPE_OPAQUE then Some (read_opaque len self)
         else Some (Inl (not_handled t), self)))"

text \<open>The two container decoders as methods, for a bound \<open>depth\<close> on the nesting below them.\<close>

definition WrapperJson_read_binary_json_object ::
  "nat \<Rightarrow> int \<Rightarrow> bool \<Rightarrow> payload_state \<Rightarrow> json_result" where
  "WrapperJson_read_binary_json_object depth = read_binary_json_object (read_binary_json_type depth)"

definition WrapperJson_read_binary_json_array ::
  "nat \<Rightarrow> int \<Rightarrow> bool \<Rightarrow> payload_state \<Rightarrow> json_result" where
  "WrapperJson_read_binary_json_array depth = read_binary_json_array (read_binary_json_type depth)"

section \<open>Sequences of cursor operations and example inputs\<close>

text \<open>
  A caller's use of a wrapper is a sequence of \<^verbatim>\<open>read\<close>, \<^verbatim>\<open>advance\<close> and
  \<^verbatim>\<open>unread\<close> calls. \<open>run_op\<close> is the state a call leaves behind, whether it returned
  or raised, and \<open>counted\<close> is the number of bytes the call asks for (negative for
  \<^verbatim>\<open>unread\<close>).
\<close>

datatype cursor_op = Read nat | Advance nat | Unread "byte list"

fun run_op :: "cursor_op \<Rightarrow> wrapper \<Rightarrow> wrapper" where
  "run_op (Read n) self = snd (BinLogPacketWrapper_read n self)"
| "run_op (Advance n) self = snd (BinLogPacketWrapper_advance n self)"
| "run_op (Unread data) self = snd (BinLogPacketWrapper_unread data self)"

fun counted :: "cursor_op \<Rightarrow> int" where
  "counted (Read n) = int n"
| "counted (Advance n) = int n"
| "counted (Unread data) = - int (length data)"

text \<open>
  The header of spec section 8: timestamp 1600000000, type 2, server id 1, event size 42,
  log position 1000, flags 0, after the reserved byte.
\<close>

definition example_header :: "byte list" where
  "example_header =
     [0, 0x00, 0x10, 0x5E, 0x5F, 2, 1, 0, 0, 0, 42, 0, 0, 0, 0xE8, 3, 0, 0, 0, 0]"

definition blank_wrapper :: "byte list \<Rightarrow> byte list \<Rightarrow> wrapper" where
  "blank_wrapper buf bs =
     \<lparr>read_bytes = 0, data_buffer = buf, packet = \<lparr>pdata = bs, position = 0\<rparr>,
      timestamp = 0, event_type = 0, server_id = 0, event_size = 0, log_pos = 0, flags = 0\<rparr>"

text \<open>
  The signed big-endian two's-complement value of a byte sequence, as the claim about
  \<^verbatim>\<open>read_int_be_by_size\<close> words it: the unsigned value, less two to the number of
  bits when the top bit is set.
\<close>

definition signed_be :: "byte list \<Rightarrow> int" where
  "signed_be bs =
     (if int (be_uint bs) \<ge> 2 ^ (8 * length bs - 1)
      then int (be_uint bs) - 2 ^ (8 * length bs) else int (be_uint bs))"

text \<open>
  A small object and a small array with the same three value slots: the inlined 16-bit
  integer 1, a stored value whose type tag 13 is none of the handled tags, and the inlined
  16-bit integer 7. The object's keys are the bytes \<^verbatim>\<open>a\<close>, \<^verbatim>\<open>b\<close> and \<^verbatim>\<open>c\<close>.
\<close>

definition example_object :: "byte list" where
  "example_object =
     [3, 0, 28, 0, 24, 0, 1, 0, 25, 0, 1, 0, 26, 0, 1, 0,
      5, 1, 0, 13, 28, 0, 5, 7, 0, 0x61, 0x62, 0x63]"

definition example_array :: "byte list" where
  "example_array = [3, 0, 13, 0, 5, 1, 0, 13, 13, 0, 5, 7, 0]"

section \<open>The event header\<close>

lemma le_uint_4:
  "le_uint [a, b, c, d] = unat a + 256 * unat b + 65536 * unat c + 16777216 * unat d"
  by simp

text \<open>
  C3. For every packet whose next 20 bytes are \<open>b0 \<dots> b19\<close>, the constructor discards
  \<open>b0\<close> and takes the timestamp from \<open>b1..b4\<close>, the event type from \<open>b5\<close>, the server id
  from \<open>b6..b9\<close>, the event size from \<open>b10..b13\<close>, the log position from \<open>b14..b17\<close> and
  the flags from \<open>b18..b19\<close>, each little-endian; the body length it hands to the event is
  the event size minus 23 with a checksum and minus 19 without.
\<close>

theorem header_layout:
  "BinLogPacketWrapper_init
      \<lparr>pdata = pre @ [b0, b1, b2, b3, b4, b5, b6, b7, b8, b9,
                      b10, b11, b12, b13, b14, b15, b16, b17, b18, b19] @ rest,
       position = length pre\<rparr> use_checksum =
   Inr (\<lparr>read_bytes = 0, data_buffer = [],
         packet = \<lparr>pdata = pre @ [b0, b1, b2, b3, b4, b5, b6, b7, b8, b9,
                      b10, b11, b12, b13, b14, b15, b16, b17, b18, b19] @ rest,
                   position = length pre + 20\<rparr>,
         timestamp = unat b1 + 256 * unat b2 + 65536 * unat b3 + 16777216 * unat b4,
         event_type = unat b5,
         server_id = unat b6 + 256 * unat b7 + 65536 * unat b8 + 16777216 * unat b9,
         event_size = unat b10 + 256 * unat b11 + 65536 * unat b12 + 16777216 * unat b13,
         log_pos = unat b14 + 256 * unat b15 + 65536 * unat b16 + 16777216 * unat b17,
         flags = unat b18 + 256 * unat b19\<rparr>,
        int (unat b10 + 256 * unat b11 + 65536 * unat b12 + 16777216 * unat b13)
          - (if use_checksum then 23 else 19))"
  by (simp add: BinLogPacketWrapper_init_def packet_read_def unpack_cIcIIIH_def byte2int_def
      unpack_uint_be_def be_uint_def Let_def)

text \<open>The example of spec section 8: event size 42 gives the body lengths 23 and 19.\<close>

lemma header_example:
  "map_sum id snd (BinLogPacketWrapper_init \<lparr>pdata = example_header, position = 0\<rparr> False)
     = Inr 23"
  "map_sum id snd (BinLogPacketWrapper_init \<lparr>pdata = example_header, position = 0\<rparr> True)
     = Inr 19"
  by (simp_all add: example_header_def BinLogPacketWrapper_init_def packet_read_def
      unpack_cIcIIIH_def byte2int_def unpack_uint_be_def be_uint_def Let_def)

section \<open>Push-back\<close>

text \<open>
  What \<^verbatim>\<open>read(len(b))\<close> returns right after \<^verbatim>\<open>unread(b)\<close>: the first
  \<^verbatim>\<open>len(b)\<close> bytes of the old buffer followed by \<open>b\<close>, because \<^verbatim>\<open>unread\<close>
  appends to \<^verbatim>\<open>data_buffer\<close>.
\<close>

lemma read_after_unread:
  "fst (BinLogPacketWrapper_read (length b) (snd (BinLogPacketWrapper_unread b self)))
     = Inr (take (length b) (data_buffer self @ b))"
  by (cases "b = []")
    (auto simp: BinLogPacketWrapper_read_def BinLogPacketWrapper_unread_def Let_def
      packet_read_def)

text \<open>With an empty buffer the bytes pushed back are the bytes read next.\<close>

lemma read_after_unread_empty_buffer:
  assumes "data_buffer self = []"
  shows "BinLogPacketWrapper_read (length b) (snd (BinLogPacketWrapper_unread b self))
     = (Inr b, self\<lparr>data_buffer := []\<rparr>)"
  using assms
  by (cases "b = []")
    (auto simp: BinLogPacketWrapper_read_def BinLogPacketWrapper_unread_def Let_def
      packet_read_def)

text \<open>
  C4. The claim is that \<^verbatim>\<open>pushback(b)\<close> prepends, so that the next
  \<^verbatim>\<open>read(len(b))\<close> returns \<open>b\<close> even when the override buffer is not empty. On a
  wrapper whose buffer holds the byte 0xAA, \<^verbatim>\<open>unread\<close> of the byte 0xBB followed by
  \<^verbatim>\<open>read(1)\<close> returns 0xAA and leaves 0xBB in the buffer.
\<close>

theorem unread_nonempty_buffer_reads_old_byte:
  "BinLogPacketWrapper_read 1 (snd (BinLogPacketWrapper_unread [0xBB] (blank_wrapper [0xAA] [])))
     = (Inr [0xAA], blank_wrapper [0xBB] [])"
  by (simp add: BinLogPacketWrapper_read_def BinLogPacketWrapper_unread_def Let_def
      blank_wrapper_def)

section \<open>The counter of bytes read\<close>

lemma read_bytes_read:
  "read_bytes (snd (BinLogPacketWrapper_read n self)) = read_bytes self + int n"
  by (simp add: BinLogPacketWrapper_read_def Let_def split: prod.splits sum.splits)

lemma read_bytes_advance:
  "read_bytes (snd (BinLogPacketWrapper_advance n self)) = read_bytes self + int n"
  by (simp add: BinLogPacketWrapper_advance_def Let_def split: prod.splits sum.splits)

lemma read_bytes_unread:
  "read_bytes (snd (BinLogPacketWrapper_unread data self)) = read_bytes self - int (length data)"
  by (simp add: BinLogPacketWrapper_unread_def)

lemma read_bytes_run_op: "read_bytes (run_op x self) = read_bytes self + counted x"
  by (cases x) (simp_all add: read_bytes_read read_bytes_advance read_bytes_unread)

lemma read_bytes_run_ops:
  "read_bytes (foldl (\<lambda>w x. run_op x w) self ops) = read_bytes self + sum_list (map counted ops)"
  by (induction ops arbitrary: self) (simp_all add: read_bytes_run_op)

lemma read_bytes_init:
  assumes "BinLogPacketWrapper_init p use_checksum = Inr (self, n)"
  shows "read_bytes self = 0"
  using assms
  by (auto simp: BinLogPacketWrapper_init_def Let_def split: prod.splits sum.splits)

text \<open>
  C5, as the claim states it, counts the 20 header bytes. The constructor reads them with the
  wrapped packet's own \<^verbatim>\<open>read\<close>: on the example header the packet's position is 20 and
  \<^verbatim>\<open>read_bytes\<close> is 0.
\<close>

theorem header_bytes_not_counted:
  "BinLogPacketWrapper_init \<lparr>pdata = example_header, position = 0\<rparr> False =
     Inr (\<lparr>read_bytes = 0, data_buffer = [],
           packet = \<lparr>pdata = example_header, position = 20\<rparr>,
           timestamp = 1600000000, event_type = 2, server_id = 1, event_size = 42,
           log_pos = 1000, flags = 0\<rparr>, 23)"
  by (simp add: example_header_def BinLogPacketWrapper_init_def packet_read_def
      unpack_cIcIIIH_def byte2int_def unpack_uint_be_def be_uint_def Let_def)

text \<open>
  C5, amended. The counter is 0 when the constructor has parsed the header, and after any
  sequence of calls on the wrapper it is the sum of the sizes asked of \<^verbatim>\<open>read\<close> and
  \<^verbatim>\<open>advance\<close> minus the lengths given to \<^verbatim>\<open>unread\<close> (a call that raises has
  already moved the counter).
\<close>

theorem read_bytes_is_net_count:
  assumes "BinLogPacketWrapper_init p use_checksum = Inr (self, n)"
  shows "read_bytes self = 0 \<and>
         read_bytes (foldl (\<lambda>w x. run_op x w) self ops) = sum_list (map counted ops)"
  using read_bytes_init [OF assms] by (simp add: read_bytes_run_ops)

theorem read_bytes_is_net_count_witness:
  "BinLogPacketWrapper_init \<lparr>pdata = example_header @ [1, 2, 3, 4, 5, 6], position = 0\<rparr> False
     = Inr (\<lparr>read_bytes = 0, data_buffer = [],
             packet = \<lparr>pdata = example_header @ [1, 2, 3, 4, 5, 6], position = 20\<rparr>,
             timestamp = 1600000000, event_type = 2, server_id = 1, event_size = 42,
             log_pos = 1000, flags = 0\<rparr>, 23)
   \<and> read_bytes (foldl (\<lambda>w x. run_op x w)
         \<lparr>read_bytes = 0, data_buffer = [],
          packet = \<lparr>pdata = example_header @ [1, 2, 3, 4, 5, 6], position = 20\<rparr>,
          timestamp = 1600000000, event_type = 2, server_id = 1, event_size = 42,
          log_pos = 1000, flags = 0\<rparr> [Read 5, Unread [1, 2], Read 2]) = 5"
proof -
  have h: "BinLogPacketWrapper_init
      \<lparr>pdata = example_header @ [1, 2, 3, 4, 5, 6], position = 0\<rparr> False
     = Inr (\<lparr>read_bytes = 0, data_buffer = [],
             packet = \<lparr>pdata = example_header @ [1, 2, 3, 4, 5, 6], position = 20\<rparr>,
             timestamp = 1600000000, event_type = 2, server_id = 1, event_size = 42,
             log_pos = 1000, flags = 0\<rparr>, 23)"
    by (simp add: example_header_def BinLogPacketWrapper_init_def packet_read_def
        unpack_cIcIIIH_def byte2int_def unpack_uint_be_def be_uint_def Let_def)
  show ?thesis
    using h read_bytes_is_net_count [OF h, of "[Read 5, Unread [1, 2], Read 2]"] by simp
qed

section \<open>Short reads\<close>

text \<open>
  C6, as the claim states it, covers the in-memory payload cursor. On a payload of two bytes
  \<^verbatim>\<open>WrapperPayload.read(5)\<close> returns the two bytes and raises nothing.
\<close>

theorem payload_read_is_short:
  "WrapperPayload_read 5 \<lparr>payload = [1, 2], point = 0\<rparr>
     = (Inr [1, 2], \<lparr>payload = [1, 2], point = 5\<rparr>)"
  by (simp add: WrapperPayload_read_def)

text \<open>
  C6, amended. \<^verbatim>\<open>BinLogPacketWrapper.read(n)\<close> returns exactly \<open>n\<close> bytes, or fails
  with \<open>TruncatedDataError\<close> when the override buffer and the wrapped packet together hold
  fewer than \<open>n\<close> bytes. \<^verbatim>\<open>WrapperPayload.read(n)\<close> never fails: it returns the next
  \<open>n\<close> bytes of the payload, or all the bytes that are left when they are fewer than \<open>n\<close>.
\<close>

theorem read_exact_or_truncated:
  "((\<exists>bs s1. BinLogPacketWrapper_read n self = (Inr bs, s1) \<and> length bs = n) \<or>
    (\<exists>s1. BinLogPacketWrapper_read n self = (Inl TruncatedDataError, s1) \<and>
       length (data_buffer self)
         + (length (pdata (packet self)) - position (packet self)) < n)) \<and>
   WrapperPayload_read n ps
     = (Inr (take n (drop (point ps) (payload ps))), ps\<lparr>point := point ps + n\<rparr>) \<and>
   length (take n (drop (point ps) (payload ps))) = min n (length (payload ps) - point ps)"
proof -
  have "(\<exists>bs s1. BinLogPacketWrapper_read n self = (Inr bs, s1) \<and> length bs = n) \<or>
    (\<exists>s1. BinLogPacketWrapper_read n self = (Inl TruncatedDataError, s1) \<and>
       length (data_buffer self)
         + (length (pdata (packet self)) - position (packet self)) < n)"
    by (auto simp: BinLogPacketWrapper_read_def Let_def packet_read_def
        split: prod.splits sum.splits)
  then show ?thesis
    by (simp add: WrapperPayload_read_def)
qed

section \<open>The big-endian integer reader\<close>

lemma le_uint_less: "le_uint bs < 256 ^ length bs"
proof (induction bs)
  case Nil
  then show ?case by simp
next
  case (Cons b bs)
  have "unat b < 256"
    using unsigned_less [of b] by simp
  with Cons show ?case by simp
qed

lemma be_uint_less: "be_uint bs < 256 ^ length bs"
  using le_uint_less [of "rev bs"] by (simp add: be_uint_def)

lemma signed_take_bit_of_unsigned:
  fixes k :: int
  assumes "0 \<le> k" and "k < 2 ^ Suc n"
  shows "signed_take_bit n k = (if k \<ge> 2 ^ n then k - 2 ^ Suc n else k)"
proof (cases "k < 2 ^ n")
  case True
  with assms show ?thesis
    by (simp add: signed_take_bit_int_eq_self)
next
  case False
  have "(k + 2 ^ n) mod 2 ^ Suc n = (k + 2 ^ n - 2 ^ Suc n) mod 2 ^ Suc n"
    by (metis diff_add_cancel mod_add_self2)
  also have "\<dots> = k + 2 ^ n - 2 ^ Suc n"
    using False assms by (intro mod_pos_pos_trivial) auto
  finally show ?thesis
    using False by (simp add: signed_take_bit_eq_take_bit_shift take_bit_eq_mod)
qed

lemma unpack_b_signed:
  assumes "length bs = 1"
  shows "unpack_b bs = Inr (signed_be bs)"
proof -
  have "int (be_uint bs) < 2 ^ Suc 7"
    using be_uint_less [of bs] assms by simp
  then show ?thesis
    using assms
    by (simp add: unpack_b_def signed_be_def signed_of_nat signed_take_bit_of_unsigned)
qed

lemma unpack_h_be_signed:
  assumes "length bs = 2"
  shows "unpack_h_be bs = Inr (signed_be bs)"
proof -
  have "int (be_uint bs) < 2 ^ Suc 15"
    using be_uint_less [of bs] assms by simp
  then show ?thesis
    using assms
    by (simp add: unpack_h_be_def signed_be_def signed_of_nat signed_take_bit_of_unsigned)
qed

lemma unpack_i_be_signed:
  assumes "length bs = 4"
  shows "unpack_i_be bs = Inr (signed_be bs)"
proof -
  have "int (be_uint bs) < 2 ^ Suc 31"
    using be_uint_less [of bs] assms by simp
  then show ?thesis
    using assms
    by (simp add: unpack_i_be_def signed_be_def signed_of_nat signed_take_bit_of_unsigned)
qed

lemma or_of_three_bytes:
  "push_bit 16 (uint (a :: byte)) OR push_bit 8 (uint (b :: byte)) OR uint (c :: byte)
     = 65536 * uint a + 256 * uint b + uint c"
proof -
  have low: "push_bit 8 (uint b) OR uint c = push_bit 8 (uint b) + uint c"
    by (rule disjunctive_add [symmetric]) (auto simp: bit_simps dest: bit_imp_le_length)
  have "push_bit 16 (uint a) OR push_bit 8 (uint b) OR uint c
      = push_bit 16 (uint a) + (push_bit 8 (uint b) OR uint c)"
    by (rule disjunctive_add [symmetric]) (auto simp: bit_simps dest: bit_imp_le_length)
  also have "\<dots> = push_bit 16 (uint a) + (push_bit 8 (uint b) + uint c)"
    by (simp only: low)
  also have "\<dots> = 65536 * uint a + 256 * uint b + uint c"
    by (simp add: push_bit_eq_mult)
  finally show ?thesis .
qed

lemma read_int24_be_signed:
  assumes "rd 3 s = (Inr bs, s1)" and "length bs = 3"
  shows "read_int24_be rd s = (Inr (signed_be bs), s1)"
proof -
  from assms(2) obtain a b c where bs: "bs = [a, b, c]"
    by (cases bs; cases "tl bs"; cases "tl (tl bs)") auto
  have "int (be_uint bs) = 65536 * uint a + 256 * uint b + uint c"
    by (simp add: bs be_uint_def)
  then show ?thesis
    using assms(1)
    by (simp add: read_int24_be_def bindE_def returnE_def bs or_of_three_bytes signed_be_def)
qed

lemma read_int40_be_unsigned:
  assumes "rd 5 s = (Inr bs, s1)" and "length bs = 5"
  shows "read_int40_be rd s = (Inr (int (be_uint bs)), s1)"
proof -
  from assms(2) obtain a b c d e where bs: "bs = [a, b, c, d, e]"
    by (cases bs; cases "tl bs"; cases "tl (tl bs)"; cases "tl (tl (tl bs))";
        cases "tl (tl (tl (tl bs)))") auto
  show ?thesis
    using assms(1)
    by (simp add: read_int40_be_def bindE_def returnE_def bs be_uint_def push_bit_eq_mult)
qed

text \<open>With eight bytes in hand the width 8 raises: the format \<^verbatim>\<open>'>l'\<close> is four bytes.\<close>

lemma read_int_be_by_size_8:
  assumes "rd 8 s = (Inr bs, s1)" and "length bs = 8"
  shows "read_int_be_by_size rd 8 s = (Inl StructError, s1)"
  using assms
  by (simp add: read_int_be_by_size_def bindE_def liftE_def unpack_l_be_def)

text \<open>
  C9, as the claim states it, returns the signed value for the width 5. On five bytes 0xFF
  the reader returns \<open>2 ^ 40 - 1\<close>, and the signed value of those bytes is \<open>- 1\<close>.
\<close>

theorem read_int_be_by_size_5_is_unsigned:
  "read_int_be_by_size BinLogPacketWrapper_read 5
       (blank_wrapper [] [0xFF, 0xFF, 0xFF, 0xFF, 0xFF])
     = (Inr (Some 1099511627775),
        (blank_wrapper [] [0xFF, 0xFF, 0xFF, 0xFF, 0xFF])
          \<lparr>read_bytes := 5, packet := \<lparr>pdata = [0xFF, 0xFF, 0xFF, 0xFF, 0xFF], position = 5\<rparr>\<rparr>)
   \<and> signed_be [0xFF, 0xFF, 0xFF, 0xFF, 0xFF] = - 1"
  by (simp add: read_int_be_by_size_def read_int40_be_def bindE_def returnE_def
      BinLogPacketWrapper_read_def packet_read_def blank_wrapper_def Let_def be_uint_def
      signed_be_def)

text \<open>
  C9, amended. When \<^verbatim>\<open>self.read(n)\<close> delivers \<open>n\<close> bytes, the reader returns their
  signed big-endian two's-complement value for the widths 1, 2, 3 and 4, and their unsigned
  big-endian value for the width 5, having read those bytes only. For a width other than
  1, 2, 3, 4, 5 and 8 it reads nothing and returns \<^verbatim>\<open>None\<close>.
\<close>

theorem read_int_be_by_size_widths:
  assumes "rd n s = (Inr bs, s1)" and "length bs = n"
  shows "(n \<in> {1, 2, 3, 4} \<longrightarrow> read_int_be_by_size rd n s = (Inr (Some (signed_be bs)), s1)) \<and>
         (n = 5 \<longrightarrow> read_int_be_by_size rd n s = (Inr (Some (int (be_uint bs))), s1)) \<and>
         (n \<notin> {1, 2, 3, 4, 5, 8} \<longrightarrow> read_int_be_by_size rd n s = (Inr None, s))"
proof (intro conjI impI)
  assume "n \<in> {1, 2, 3, 4}"
  then consider "n = 1" | "n = 2" | "n = 3" | "n = 4"
    by auto
  then show "read_int_be_by_size rd n s = (Inr (Some (signed_be bs)), s1)"
  proof cases
    case 1
    with assms show ?thesis
      by (simp add: read_int_be_by_size_def bindE_def liftE_def returnE_def unpack_b_signed)
  next
    case 2
    with assms show ?thesis
      by (simp add: read_int_be_by_size_def bindE_def liftE_def returnE_def unpack_h_be_signed)
  next
    case 3
    with assms have "read_int24_be rd s = (Inr (signed_be bs), s1)"
      by (simp add: read_int24_be_signed)
    with 3 show ?thesis
      by (simp add: read_int_be_by_size_def bindE_def returnE_def)
  next
    case 4
    with assms show ?thesis
      by (simp add: read_int_be_by_size_def bindE_def liftE_def returnE_def unpack_i_be_signed)
  qed
next
  assume "n = 5"
  with assms have "read_int40_be rd s = (Inr (int (be_uint bs)), s1)"
    by (simp add: read_int40_be_unsigned)
  with \<open>n = 5\<close> show "read_int_be_by_size rd n s = (Inr (Some (int (be_uint bs))), s1)"
    by (simp add: read_int_be_by_size_def bindE_def returnE_def)
next
  assume "n \<notin> {1, 2, 3, 4, 5, 8}"
  then show "read_int_be_by_size rd n s = (Inr None, s)"
    by (simp add: read_int_be_by_size_def returnE_def)
qed

theorem read_int_be_by_size_widths_witness:
  "BinLogPacketWrapper_read 2 (blank_wrapper [] [0xFB, 0x2D])
     = (Inr [0xFB, 0x2D],
        (blank_wrapper [] [0xFB, 0x2D])
          \<lparr>read_bytes := 2, packet := \<lparr>pdata = [0xFB, 0x2D], position = 2\<rparr>\<rparr>)
   \<and> length [0xFB :: byte, 0x2D] = 2
   \<and> read_int_be_by_size BinLogPacketWrapper_read 2 (blank_wrapper [] [0xFB, 0x2D])
     = (Inr (Some (- 1235)),
        (blank_wrapper [] [0xFB, 0x2D])
          \<lparr>read_bytes := 2, packet := \<lparr>pdata = [0xFB, 0x2D], position = 2\<rparr>\<rparr>)"
proof -
  have r: "BinLogPacketWrapper_read 2 (blank_wrapper [] [0xFB, 0x2D])
     = (Inr [0xFB, 0x2D],
        (blank_wrapper [] [0xFB, 0x2D])
          \<lparr>read_bytes := 2, packet := \<lparr>pdata = [0xFB, 0x2D], position = 2\<rparr>\<rparr>)"
    by (simp add: BinLogPacketWrapper_read_def packet_read_def blank_wrapper_def Let_def)
  have l: "length [0xFB :: byte, 0x2D] = 2"
    by simp
  have v: "signed_be [0xFB, 0x2D] = - 1235"
    by (simp add: signed_be_def be_uint_def)
  show ?thesis
    using r l v read_int_be_by_size_widths [where rd = BinLogPacketWrapper_read and n = 2, OF r l]
    by simp
qed

section \<open>Length-coded integers\<close>

lemmas lcb_defs = read_length_coded_binary_def bindE_def liftE_def returnE_def byte2int_def
  unpack_uint_be_def be_uint_def NULL_COLUMN_def UNSIGNED_CHAR_COLUMN_def
  UNSIGNED_SHORT_COLUMN_def UNSIGNED_INT24_COLUMN_def UNSIGNED_INT64_COLUMN_def
  UNSIGNED_SHORT_LENGTH_def UNSIGNED_INT24_LENGTH_def UNSIGNED_INT64_LENGTH_def

text \<open>The prefix 0xFB is "no value", and a smaller prefix is its own value.\<close>

lemma read_length_coded_binary_null:
  assumes "rd 1 s = (Inr [0xFB], s1)"
  shows "read_length_coded_binary rd s = (Inr None, s1)"
  using assms by (simp add: lcb_defs)

lemma read_length_coded_binary_small:
  assumes "rd 1 s = (Inr [c], s1)" and "unat c < 251"
  shows "read_length_coded_binary rd s = (Inr (Some (unat c)), s1)"
  using assms by (simp add: lcb_defs)

text \<open>The prefixes 0xFC and 0xFD are followed by 2 and 3 little-endian bytes.\<close>

lemma read_length_coded_binary_short:
  assumes "rd 1 s = (Inr [0xFC], s1)" and "rd 2 s1 = (Inr [a, b], s2)"
  shows "read_length_coded_binary rd s = (Inr (Some (unat a + 256 * unat b)), s2)"
  using assms by (simp add: lcb_defs unpack_uint16_def unpack_uint_le_def)

lemma read_length_coded_binary_int24:
  assumes "rd 1 s = (Inr [0xFD], s1)" and "rd 3 s1 = (Inr [a, b, c], s2)"
  shows "read_length_coded_binary rd s
     = (Inr (Some (unat a + 256 * unat b + 65536 * unat c)), s2)"
  using assms by (simp add: lcb_defs unpack_int24_def bindS_def byte_at_def push_bit_eq_mult)

text \<open>
  The prefix 0xFE is followed by 8 bytes, of which \<^verbatim>\<open>unpack_int64\<close> adds up the first
  five.
\<close>

lemma read_length_coded_binary_int64:
  assumes "rd 1 s = (Inr [0xFE], s1)"
    and "rd 8 s1 = (Inr [a0, a1, a2, a3, a4, a5, a6, a7], s2)"
  shows "read_length_coded_binary rd s
     = (Inr (Some (unat a0 + 256 * unat a1 + 65536 * unat a2 + 16777216 * unat a3
                   + 4294967296 * unat a4)), s2)"
  using assms by (simp add: lcb_defs unpack_int64_def bindS_def byte_at_def push_bit_eq_mult)

text \<open>
  C2. The claim is that the prefix 0xFE is followed by an 8-byte little-endian unsigned
  integer. On the encoding of \<open>2 ^ 40\<close>, the prefix 0xFE followed by the bytes
  00 00 00 00 00 01 00 00, \<^verbatim>\<open>read_length_coded_binary\<close> consumes the nine bytes and
  returns 0; the little-endian value of the eight bytes is 1099511627776.
\<close>

theorem read_length_coded_binary_drops_high_bytes:
  "read_length_coded_binary BinLogPacketWrapper_read
       (blank_wrapper [] [0xFE, 0, 0, 0, 0, 0, 1, 0, 0])
     = (Inr (Some 0),
        (blank_wrapper [] [0xFE, 0, 0, 0, 0, 0, 1, 0, 0])
          \<lparr>read_bytes := 9,
           packet := \<lparr>pdata = [0xFE, 0, 0, 0, 0, 0, 1, 0, 0], position = 9\<rparr>\<rparr>)
   \<and> le_uint [0, 0, 0, 0, 0, 1, 0, 0] = 1099511627776"
  by (simp add: lcb_defs BinLogPacketWrapper_read_def packet_read_def blank_wrapper_def Let_def
      unpack_int64_def bindS_def byte_at_def)

section \<open>The packed decimal\<close>

lemmas decimal_defs = read_new_decimal_def read_uint8_def bindE_def liftE_def returnE_def
  raiseE_def unpack_uint_le_def Let_def int_trunc_div_def list_at_def compressed_bytes_def
  read_compressed_def read_int_be_by_size_def unpack_h_be_def be_uint_def str_int_def
  format_0d_def Decimal_of_string_def is_digit_def nat_of_digits_def digit_value_def
  digit_char_def

text \<open>
  With the \<^verbatim>\<open>read\<close> and \<^verbatim>\<open>unread\<close> of \<^verbatim>\<open>BinLogPacketWrapper\<close> in the place
  of \<^verbatim>\<open>self.read\<close> and \<^verbatim>\<open>self.unread\<close>, the body of \<^verbatim>\<open>read_new_decimal\<close>
  decodes the encodings of 1234.5678 and -1234.5678 (precision 8, scale 4) to the exact
  values: coefficient 12345678, exponent -4, with the sign of each.
\<close>

lemma read_new_decimal_with_unread:
  "fst (read_new_decimal BinLogPacketWrapper_read BinLogPacketWrapper_unread
          (blank_wrapper [] [8, 4, 0x84, 0xD2, 0x16, 0x2E]))
     = Inr (Decimal False 12345678 (- 4))"
  "fst (read_new_decimal BinLogPacketWrapper_read BinLogPacketWrapper_unread
          (blank_wrapper [] [8, 4, 0x7B, 0x2D, 0xE9, 0xD1]))
     = Inr (Decimal True 12345678 (- 4))"
  by (simp_all add: decimal_defs BinLogPacketWrapper_read_def BinLogPacketWrapper_unread_def
      packet_read_def blank_wrapper_def)

text \<open>
  C1. The claim is that decoding the packed encoding of 1234.5678 (precision 8, scale 4)
  gives 1234.5678 and that of -1234.5678 gives -1234.5678. \<^verbatim>\<open>read_new_decimal\<close> is a
  method of \<^verbatim>\<open>WrapperJson\<close>, which has no \<^verbatim>\<open>unread\<close>: on both encodings it reads
  the precision, the scale and the sign byte, and raises \<^verbatim>\<open>AttributeError\<close> at the
  push-back.
\<close>

theorem read_new_decimal_raises_attribute_error:
  "WrapperJson_read_new_decimal \<lparr>payload = [8, 4, 0x84, 0xD2, 0x16, 0x2E], point = 0\<rparr>
     = (Inl (AttributeError ''unread''),
        \<lparr>payload = [8, 4, 0x84, 0xD2, 0x16, 0x2E], point = 3\<rparr>)
   \<and> WrapperJson_read_new_decimal \<lparr>payload = [8, 4, 0x7B, 0x2D, 0xE9, 0xD1], point = 0\<rparr>
     = (Inl (AttributeError ''unread''),
        \<lparr>payload = [8, 4, 0x7B, 0x2D, 0xE9, 0xD1], point = 3\<rparr>)"
  by (simp add: WrapperJson_read_new_decimal_def read_new_decimal_def read_uint8_def bindE_def
      WrapperPayload_read_def liftE_def unpack_uint_le_def WrapperJson_unread_def raiseE_def
      Let_def)

section \<open>The bound on the declared size of a container\<close>

lemma read_count_and_size_point:
  assumes "read_count_and_size large s = (Inr x, s1)"
  shows "s1 = s\<lparr>point := point s + (if large then 8 else 4)\<rparr>"
  using assms
  by (auto simp: read_count_and_size_def read_uint32_def read_uint16_def bindE_def liftE_def
      returnE_def WrapperPayload_read_def split: if_splits sum.splits prod.splits)

text \<open>The two fields of a small container, in terms of the bytes at the cursor.\<close>

lemma read_count_and_size_small:
  assumes "drop (point s) (payload s) = e0 # e1 # z0 # z1 # rest"
  shows "read_count_and_size False s
     = (Inr (unat e0 + 256 * unat e1, unat z0 + 256 * unat z1), s\<lparr>point := point s + 4\<rparr>)"
proof -
  have "drop (point s + 2) (payload s) = z0 # z1 # rest"
    using assms by (metis add.commute drop_drop drop_Suc_Cons drop0 numeral_2_eq_2)
  moreover have "length (payload s) - point s = 4 + length rest"
    using arg_cong [OF assms, of length] by simp
  ultimately show ?thesis
    using assms
    by (simp add: read_count_and_size_def read_uint16_def bindE_def liftE_def
        returnE_def WrapperPayload_read_def unpack_uint_le_def)
qed

text \<open>
  C7. When the count and the declared size of a container have been read and the declared
  size exceeds the length the decoder was given, the object decoder and the array decoder
  both raise \<^verbatim>\<open>ValueError('Json length is larger than packet length')\<close> (the spec's
  \<open>MalformedJsonError\<close>), whatever the decoder \<open>rec\<close> of nested values is, and the cursor
  is left right after the two fields: 4 bytes on for a small container, 8 for a large one.
  No key, slot or nested value has been read.
\<close>

theorem oversized_container_fails_first:
  assumes "read_count_and_size large s = (Inr (elements, sz), s1)" and "int sz > len"
  shows "read_binary_json_object rec len large s = Some (Inl too_large, s1) \<and>
         read_binary_json_array rec len large s = Some (Inl too_large, s1) \<and>
         s1 = s\<lparr>point := point s + (if large then 8 else 4)\<rparr>"
  using assms read_count_and_size_point [OF assms(1)]
  by (simp add: read_binary_json_object_def read_binary_json_array_def bindE_def raiseE_def)

theorem oversized_container_fails_first_witness:
  "read_count_and_size False \<lparr>payload = [2, 0, 0xFF, 0xFF], point = 0\<rparr>
     = (Inr (2, 65535), \<lparr>payload = [2, 0, 0xFF, 0xFF], point = 4\<rparr>)
   \<and> int 65535 > 10
   \<and> read_binary_json_object (read_binary_json_type (Suc 0)) 10 False
         \<lparr>payload = [2, 0, 0xFF, 0xFF], point = 0\<rparr>
     = Some (Inl too_large, \<lparr>payload = [2, 0, 0xFF, 0xFF], point = 4\<rparr>)
   \<and> read_binary_json_array (read_binary_json_type (Suc 0)) 10 False
         \<lparr>payload = [2, 0, 0xFF, 0xFF], point = 0\<rparr>
     = Some (Inl too_large, \<lparr>payload = [2, 0, 0xFF, 0xFF], point = 4\<rparr>)"
proof -
  have h1: "read_count_and_size False \<lparr>payload = [2, 0, 0xFF, 0xFF], point = 0\<rparr>
     = (Inr (2, 65535), \<lparr>payload = [2, 0, 0xFF, 0xFF], point = 4\<rparr>)"
    by (simp add: read_count_and_size_def read_uint16_def bindE_def liftE_def returnE_def
        WrapperPayload_read_def unpack_uint_le_def)
  have h2: "int 65535 > 10"
    by simp
  show ?thesis
    using h1 h2
      oversized_container_fails_first [where rec = "read_binary_json_type (Suc 0)", OF h1 h2]
    by blast
qed

section \<open>Containers that declare no element\<close>

text \<open>
  C10, as the claim states it, has the array decoder return an empty sequence whenever the
  header declares zero elements. On the header 00 00 04 00 (no element, declared size 4)
  with the length 3, \<^verbatim>\<open>read_binary_json_array\<close> raises the \<^verbatim>\<open>ValueError\<close> of the
  bound check.
\<close>

theorem empty_array_over_bound_raises:
  "read_binary_json_array (read_binary_json_type (Suc 0)) 3 False
       \<lparr>payload = [0, 0, 4, 0], point = 0\<rparr>
     = Some (Inl too_large, \<lparr>payload = [0, 0, 4, 0], point = 4\<rparr>)"
  by code_simp

text \<open>
  C10, amended. When the header of a container declares zero elements and the declared
  size does not exceed the length the decoder was given, the object decoder raises
  \<^verbatim>\<open>IndexError\<close> from \<^verbatim>\<open>key_offset_lengths[0]\<close> on the empty table, instead of
  returning an empty object, and the array decoder returns the empty list. When the
  declared size exceeds that length, both raise the \<^verbatim>\<open>ValueError\<close> of the bound check.
\<close>

theorem empty_object_raises_empty_array_returns:
  assumes "read_count_and_size large s = (Inr (0, sz), s1)"
  shows "read_binary_json_object rec len large s
           = Some (Inl (if int sz > len then too_large else IndexError), s1) \<and>
         read_binary_json_array rec len large s
           = Some (if int sz > len then Inl too_large else Inr (JList []), s1)"
  using assms
  by (simp add: read_binary_json_object_def read_binary_json_array_def bindE_def raiseE_def
      liftE_def list_at_def)

theorem empty_object_raises_empty_array_returns_witness:
  "read_count_and_size False \<lparr>payload = [0, 0, 4, 0], point = 0\<rparr>
     = (Inr (0, 4), \<lparr>payload = [0, 0, 4, 0], point = 4\<rparr>)
   \<and> read_binary_json_object (read_binary_json_type (Suc 0)) 4 False
         \<lparr>payload = [0, 0, 4, 0], point = 0\<rparr>
     = Some (Inl IndexError, \<lparr>payload = [0, 0, 4, 0], point = 4\<rparr>)
   \<and> read_binary_json_array (read_binary_json_type (Suc 0)) 4 False
         \<lparr>payload = [0, 0, 4, 0], point = 0\<rparr>
     = Some (Inr (JList []), \<lparr>payload = [0, 0, 4, 0], point = 4\<rparr>)
   \<and> read_binary_json_object (read_binary_json_type (Suc 0)) 3 False
         \<lparr>payload = [0, 0, 4, 0], point = 0\<rparr>
     = Some (Inl too_large, \<lparr>payload = [0, 0, 4, 0], point = 4\<rparr>)
   \<and> read_binary_json_array (read_binary_json_type (Suc 0)) 3 False
         \<lparr>payload = [0, 0, 4, 0], point = 0\<rparr>
     = Some (Inl too_large, \<lparr>payload = [0, 0, 4, 0], point = 4\<rparr>)"
proof -
  have h: "read_count_and_size False \<lparr>payload = [0, 0, 4, 0], point = 0\<rparr>
     = (Inr (0, 4), \<lparr>payload = [0, 0, 4, 0], point = 4\<rparr>)"
    by (simp add: read_count_and_size_def read_uint16_def bindE_def liftE_def returnE_def
        WrapperPayload_read_def unpack_uint_le_def)
  note within = empty_object_raises_empty_array_returns
        [where rec = "read_binary_json_type (Suc 0)" and len = 4, OF h]
  note over = empty_object_raises_empty_array_returns
        [where rec = "read_binary_json_type (Suc 0)" and len = 3, OF h]
  show ?thesis
    using h within over
    by (simp only: of_nat_numeral rel_simps if_False if_True simp_thms)
qed

section \<open>Errors in the values of a container\<close>











text \<open>The same on the two methods, for a depth bound of 1.\<close>

lemma example_object_decodes:
  "WrapperJson_read_binary_json_object (Suc 0) 28 False \<lparr>payload = example_object, point = 0\<rparr>
     = Some (Inr (JDict [([0x61], JInt 1), ([0x62], JNone), ([0x63], JInt 7)]),
             \<lparr>payload = example_object, point = 28\<rparr>)"
  by code_simp

lemma example_array_fails:
  "WrapperJson_read_binary_json_array (Suc 0) 13 False \<lparr>payload = example_array, point = 0\<rparr>
     = Some (Inl (not_handled 13), \<lparr>payload = example_array, point = 13\<rparr>)"
  by code_simp

end
